theory Spec2Isabelle
  imports Main "HOL-Library.AList" "HOL-Library.Sublist" "HOL-Library.Option_ord"
    "HOL-Library.List_Lexorder" "HOL-Library.Product_Lexorder"
begin

section \<open>Text, names and results\<close>

text \<open>
  The module is \<^verbatim>\<open>src/aggregation.py\<close>. A Python string is a sequence of code points:
  \<open>pystr\<close> is a list of natural numbers, and \<open>ustr\<close> writes a string of ASCII
  characters.
\<close>

type_synonym pystr = "nat list"

definition cp :: "char \<Rightarrow> nat" where
  "cp c = of_char c"

definition ustr :: "string \<Rightarrow> pystr" where
  "ustr s = map cp s"

text \<open>
  The module text binds, at its top, the names \<^verbatim>\<open>join_abs\<close>, \<^verbatim>\<open>json\<close>,
  \<^verbatim>\<open>parseString\<close>, \<^verbatim>\<open>socket\<close>, \<^verbatim>\<open>sqlite3\<close>, \<^verbatim>\<open>glob\<close> (lines 1 to 6) and
  \<^verbatim>\<open>Aggregation\<close>. Its functions also use \<^verbatim>\<open>re\<close>, \<^verbatim>\<open>tqdm\<close>, \<^verbatim>\<open>requests\<close>,
  \<^verbatim>\<open>logger\<close>, \<^verbatim>\<open>ThreadPoolExecutor\<close>, \<^verbatim>\<open>Robot\<close>, \<^verbatim>\<open>exists\<close>, \<^verbatim>\<open>getcwd\<close>,
  \<^verbatim>\<open>isfile\<close>, \<^verbatim>\<open>walk\<close> and \<^verbatim>\<open>build_db\<close>, which it never binds, and
  \<^verbatim>\<open>_build_db\<close> reads \<^verbatim>\<open>self\<close> without having it as a parameter. Python looks such a
  name up in the globals of the module when the line that uses it runs, and raises
  \<^verbatim>\<open>NameError\<close> when it is not there. What the globals hold is therefore an input of
  every function of the model: \<open>names\<close> lists the global names that are bound,
  \<open>global_self\<close> is the \<^verbatim>\<open>domain\<close> of a global called \<^verbatim>\<open>self\<close> when there is one, and
  \<open>self_print\<close> tells whether the object a method runs on has the attribute
  \<^verbatim>\<open>_print\<close>, which the class does not define. \<open>shipped\<close> is the module as its text
  leaves it; \<open>completed sd\<close> is the module after every missing name has been bound to
  the library function of that name and \<^verbatim>\<open>self\<close> to an object of domain \<open>sd\<close>.
\<close>

record module_names =
  names :: "string list"
  global_self :: "pystr option"
  self_print :: bool

definition bound :: "module_names \<Rightarrow> string \<Rightarrow> bool" where
  "bound g n = (n \<in> set (names g))"

definition shipped :: module_names where
  "shipped =
     \<lparr>names = [''join_abs'', ''json'', ''parseString'', ''socket'', ''sqlite3'', ''glob'',
               ''Aggregation''],
      global_self = None, self_print = False\<rparr>"

definition completed :: "pystr \<Rightarrow> module_names" where
  "completed sd =
     \<lparr>names = [''join_abs'', ''json'', ''parseString'', ''socket'', ''sqlite3'', ''glob'',
               ''Aggregation'', ''re'', ''tqdm'', ''requests'', ''logger'',
               ''ThreadPoolExecutor'', ''Robot'', ''exists'', ''getcwd'', ''isfile'', ''walk'',
               ''build_db''],
      global_self = Some sd, self_print = True\<rparr>"

text \<open>
  The exceptions of the model. Of these only \<^verbatim>\<open>KeyboardInterrupt\<close> is not an
  \<^verbatim>\<open>Exception\<close>.
\<close>

datatype exn =
    NameError string
  | AttributeError string
  | IntegrityError string
  | InterfaceError string
  | OperationalError string
  | Timeout
  | ConnectionError
  | SSLError
  | KeyboardInterrupt

fun is_Exception :: "exn \<Rightarrow> bool" where
  "is_Exception KeyboardInterrupt = False"
| "is_Exception _ = True"

text \<open>
  What a call does: it returns a value or raises. Some functions paste
  \<^verbatim>\<open>self.domain\<close> into the text of an SQL statement or of a pattern; the model says
  what the statement or the pattern means when the pasted text is plain (no quote in a
  statement, nothing but letters, digits, hyphens, underscores and dots in a pattern), and
  \<open>Unmodelled\<close> is its answer for any other domain.
\<close>

datatype 'a outcome = Returns 'a | Raises exn | Unmodelled

definition quote_free :: "pystr \<Rightarrow> bool" where
  "quote_free d = (cp CHR 0x27 \<notin> set d)"

text \<open>\<^verbatim>\<open>self.domain.replace('.', '_')\<close>: the key a domain is stored under.\<close>

definition replace_dots :: "pystr \<Rightarrow> pystr" where
  "replace_dots d = map (\<lambda>c. if c = cp CHR ''.'' then cp CHR ''_'' else c) d"

section \<open>The store\<close>

text \<open>
  The tables are those \<^verbatim>\<open>aggregate\<close> creates (lines 109 to 128):
  \<^verbatim>\<open>domains(domain PRIMARY KEY)\<close> and
  \<^verbatim>\<open>data(domainid INTEGER PRIMARY KEY, ip, hostname, http_headers, https_headers, domain,
  FOREIGN KEY(domain) REFERENCES domains(domain), UNIQUE(ip, hostname))\<close>.
  A row of \<^verbatim>\<open>data\<close> is a record; a nullable column is an \<open>option\<close>, \<open>None\<close> being
  SQL's NULL. The table is the list of its rows in the order of their rowids.
\<close>

record row =
  domainid :: nat
  ip :: "pystr option"
  hostname :: "pystr option"
  http_headers :: "pystr option"
  https_headers :: "pystr option"
  domain :: "pystr option"

record store =
  domains :: "pystr list"
  data :: "row list"

text \<open>
  A connection: the durable content of the file and, while a transaction is open, the
  content the statements of the transaction work on. \<^verbatim>\<open>BEGIN TRANSACTION\<close> opens a
  transaction and fails inside one; \<^verbatim>\<open>COMMIT\<close> makes the content durable and fails
  outside one.
\<close>

record conn =
  durable :: store
  txn :: "store option"

definition connect :: "store \<Rightarrow> conn" where
  "connect s = \<lparr>durable = s, txn = None\<rparr>"

definition begin_transaction :: "conn \<Rightarrow> exn + conn" where
  "begin_transaction c =
     (case txn c of
        None \<Rightarrow> Inr (c\<lparr>txn := Some (durable c)\<rparr>)
      | Some s \<Rightarrow> Inl (OperationalError ''cannot start a transaction within a transaction''))"

definition commit :: "conn \<Rightarrow> exn + conn" where
  "commit c =
     (case txn c of
        None \<Rightarrow> Inl (OperationalError ''cannot commit - no transaction is active'')
      | Some s \<Rightarrow> Inr \<lparr>durable = s, txn = None\<rparr>)"

definition current :: "conn \<Rightarrow> store" where
  "current c = (case txn c of None \<Rightarrow> durable c | Some s \<Rightarrow> s)"

definition with_current :: "store \<Rightarrow> conn \<Rightarrow> conn" where
  "with_current s c = (case txn c of None \<Rightarrow> c\<lparr>durable := s\<rparr> | Some t \<Rightarrow> c\<lparr>txn := Some s\<rparr>)"

subsection \<open>The order in which SQLite visits rows\<close>

text \<open>
  SQL fixes no order for the rows of a \<^verbatim>\<open>SELECT\<close> without \<^verbatim>\<open>ORDER BY\<close>, nor the row an
  \<^verbatim>\<open>UPDATE ... LIMIT 1\<close> takes: both follow the order in which the engine visits the
  rows, which depends on the plan it chooses for the statement (the table in rowid order,
  or the index of \<^verbatim>\<open>UNIQUE(ip, hostname)\<close>). An \<^verbatim>\<open>UPDATE\<close> with \<^verbatim>\<open>LIMIT\<close> is moreover
  accepted only by an SQLite built with that option. The engine is a parameter of the
  model: \<open>limit_on_update\<close> tells whether the option is there, and \<open>order_key\<close> gives,
  for each statement of the module, the key by which the rows are visited in ascending
  order, rows of equal key in rowid order.
\<close>

datatype stmt =
    Dump_ips | Dump_hostnames | Dump_headers
  | Wave1_select | Wave1_update | Wave2_select | Wave2_update
  | Index_headers | Index_pairs

record 'k engine =
  limit_on_update :: bool
  order_key :: "stmt \<Rightarrow> row \<Rightarrow> 'k"

definition scan :: "('k::linorder) engine \<Rightarrow> stmt \<Rightarrow> row list \<Rightarrow> row list" where
  "scan eng q rs = sort_key (order_key eng q) rs"

text \<open>\<^verbatim>\<open>SELECT DISTINCT\<close> gives each value once, where it is first met.\<close>

function first_seen :: "'a list \<Rightarrow> 'a list" where
  "first_seen [] = []"
| "first_seen (x # xs) = x # first_seen (removeAll x xs)"
  by pat_completeness auto
termination
  by (relation "measure length") (auto simp: less_Suc_eq_le length_removeAll_less_eq)

text \<open>
  The plans SQLite 3.45 and 3.46 choose: the index for the statements that select the
  distinct ips, the distinct rows with headers and the distinct pairs, and for the update
  by ip; the table for the others. The key of the index is the pair of the ip and the
  hostname, NULL first.
\<close>

definition index_stmt :: "stmt \<Rightarrow> bool" where
  "index_stmt q = (q = Dump_ips \<or> q = Dump_headers \<or> q = Index_pairs \<or> q = Wave1_update)"

definition sqlite_engine :: "bool \<Rightarrow> (pystr option \<times> pystr option) engine" where
  "sqlite_engine lim =
     \<lparr>limit_on_update = lim,
      order_key = (\<lambda>q r. if index_stmt q then (ip r, hostname r) else (None, None))\<rparr>"

subsection \<open>The values the extractor hands to the store\<close>

text \<open>
  \<^verbatim>\<open>_reverse_ip_lookup\<close> yields pairs \<^verbatim>\<open>(host, ip)\<close>. The ip is a string or
  \<^verbatim>\<open>None\<close>. The host is a string, \<^verbatim>\<open>None\<close>, or the triple
  \<^verbatim>\<open>(hostname, aliaslist, ipaddrlist)\<close> that \<^verbatim>\<open>socket.gethostbyaddr\<close> returns and the
  code stores in \<^verbatim>\<open>host\<close> as it is (line 184).
\<close>

datatype host_val = HostName pystr | HostEnt pystr "pystr list" "pystr list"

type_synonym observation = "host_val option \<times> pystr option"

subsection \<open>INSERT INTO data\<close>

text \<open>
  SQL compares NULL as distinct from every value, NULL included: the constraint
  \<^verbatim>\<open>UNIQUE(ip, hostname)\<close> is violated by a new row only when an existing row has the
  same ip and the same hostname and both are not NULL.
\<close>

definition unique_violation :: "pystr option \<Rightarrow> pystr option \<Rightarrow> row list \<Rightarrow> bool" where
  "unique_violation i h rs =
     (i \<noteq> None \<and> h \<noteq> None \<and> list_ex (\<lambda>r. ip r = i \<and> hostname r = h) rs)"

text \<open>\<^verbatim>\<open>INTEGER PRIMARY KEY\<close>: a row inserted without a key gets the largest rowid plus one.\<close>

definition next_rowid :: "row list \<Rightarrow> nat" where
  "next_rowid rs = Suc (fold max (map domainid rs) 0)"

text \<open>
  The statement of \<^verbatim>\<open>_build_db\<close>:
  \<^verbatim>\<open>INSERT INTO data (ip, hostname, http_headers, https_headers, domain)
  VALUES (?,?, NULL, NULL, ?)\<close> with the parameters \<^verbatim>\<open>(ip, host, domain)\<close>.
  A tuple cannot be bound to a parameter (the \<^verbatim>\<open>sqlite3\<close> module raises
  \<^verbatim>\<open>InterfaceError\<close>, in later versions \<^verbatim>\<open>ProgrammingError\<close>); the foreign key is
  enforced (\<^verbatim>\<open>PRAGMA foreign_keys=1\<close>). A statement that fails changes nothing and leaves
  the transaction open.
\<close>

definition insert_data :: "pystr \<Rightarrow> observation \<Rightarrow> store \<Rightarrow> exn + store" where
  "insert_data d p s =
     (case fst p of
        Some (HostEnt n as is) \<Rightarrow> Inl (InterfaceError ''Error binding parameter 1'')
      | h \<Rightarrow>
         (let hn = (case h of Some (HostName n) \<Rightarrow> Some n | _ \<Rightarrow> None) in
          if unique_violation (snd p) hn (data s)
          then Inl (IntegrityError ''UNIQUE constraint failed: data.ip, data.hostname'')
          else if d \<notin> set (domains s)
          then Inl (IntegrityError ''FOREIGN KEY constraint failed'')
          else Inr (s\<lparr>data := data s @
                 [\<lparr>domainid = next_rowid (data s), ip = snd p, hostname = hn,
                   http_headers = None, https_headers = None, domain = Some d\<rparr>]\<rparr>)))"

subsection \<open>\<^verbatim>\<open>_build_db\<close>\<close>

text \<open>
  \<^verbatim>\<open>
  def _build_db(ips, cursor):
      cursor.execute('BEGIN TRANSACTION')
      domain = self.domain.replace(".", "_")
      try:
          for host, ip in ips:
              cursor.execute("""INSERT INTO data ... VALUES (?,?, NULL, NULL, ?);""",
                             (ip, host, domain))
      except BaseException:
          print(f"Issue with the following data: {ip} {host} {domain}")
      cursor.execute('COMMIT')
  \<close>
  The function has no parameter \<^verbatim>\<open>self\<close>: line 78 reads the global of that name, after
  the transaction has been opened, and raises \<^verbatim>\<open>NameError\<close> when there is none.
  The \<^verbatim>\<open>try\<close> encloses the whole loop: the first statement that raises ends the loop,
  the handler prints one line and the function goes on to \<^verbatim>\<open>COMMIT\<close>.
  \<open>insert_loop\<close> is the loop: it returns the store reached and the observation whose
  statement raised, if one did.
\<close>

fun insert_loop :: "pystr \<Rightarrow> observation list \<Rightarrow> store \<Rightarrow> store \<times> observation option" where
  "insert_loop d [] s = (s, None)"
| "insert_loop d (p # ps) s =
     (case insert_data d p s of
        Inl e \<Rightarrow> (s, Some p)
      | Inr s' \<Rightarrow> insert_loop d ps s')"

text \<open>
  The result is what the call returns or raises, the connection it leaves, and what it
  printed. The printed line names the observation; the model keeps the observation itself.
\<close>

definition build_db :: "module_names \<Rightarrow> observation list \<Rightarrow> conn
    \<Rightarrow> unit outcome \<times> conn \<times> observation list" where
  "build_db g ips c =
     (case begin_transaction c of
        Inl e \<Rightarrow> (Raises e, c, [])
      | Inr c1 \<Rightarrow>
         (case global_self g of
            None \<Rightarrow> (Raises (NameError ''self''), c1, [])
          | Some sd \<Rightarrow>
             (let d = replace_dots sd;
                  (s, failed) = insert_loop d ips (current c1);
                  c2 = with_current s c1;
                  out = (case failed of None \<Rightarrow> [] | Some p \<Rightarrow> [p])
              in (case commit c2 of
                    Inl e \<Rightarrow> (Raises e, c2, out)
                  | Inr c3 \<Rightarrow> (Returns (), c3, out)))))"


section \<open>The patterns of the extractor\<close>

text \<open>
  \<^verbatim>\<open>_reverse_ip_lookup\<close> compiles two regular expressions and applies each to a line
  with \<^verbatim>\<open>match\<close>, which tries the pattern at the start of the line only. A pattern is
  a term of \<open>rx\<close>; \<open>rmatch U r s\<close> lists the rests of \<open>s\<close> after every way \<open>r\<close> can
  match a prefix of \<open>s\<close>, in the order the backtracking matcher of \<^verbatim>\<open>re\<close> tries them:
  the left alternative before the right one, one more repetition before one fewer for
  the greedy \<^verbatim>\<open>{m,n}\<close> and \<^verbatim>\<open>?\<close>, one fewer before one more for the lazy \<^verbatim>\<open>*?\<close>.
  The match \<^verbatim>\<open>re\<close> reports is the first of the list.

  The patterns are \<^verbatim>\<open>str\<close> patterns: \<^verbatim>\<open>\d\<close> matches every decimal digit of the
  Unicode tables, the ASCII digits and others. The table is the parameter \<open>U\<close>, asked
  about the code points beyond ASCII. A class such as \<^verbatim>\<open>[0-5]\<close> is a list of ranges of
  code points.
\<close>

datatype rx =
    Eps
  | Lit nat
  | AnyChar
  | Digit
  | Cls "(nat \<times> nat) list"
  | Seq rx rx
  | Alt rx rx
  | Rep nat nat rx
  | StarLazy rx

definition ascii_digit :: "nat \<Rightarrow> bool" where
  "ascii_digit c = (48 \<le> c \<and> c \<le> 57)"

definition decimal_digit :: "(nat \<Rightarrow> bool) \<Rightarrow> nat \<Rightarrow> bool" where
  "decimal_digit U c = (if c < 128 then ascii_digit c else U c)"

definition in_range :: "nat \<Rightarrow> nat \<times> nat \<Rightarrow> bool" where
  "in_range c p = (fst p \<le> c \<and> c \<le> snd p)"

definition in_cls :: "nat \<Rightarrow> (nat \<times> nat) list \<Rightarrow> bool" where
  "in_cls c rs = list_ex (in_range c) rs"

text \<open>One code point that satisfies a test.\<close>

definition one_char :: "(nat \<Rightarrow> bool) \<Rightarrow> pystr \<Rightarrow> pystr list" where
  "one_char P s = (case s of [] \<Rightarrow> [] | x # xs \<Rightarrow> if P x then [xs] else [])"

text \<open>Greedy bounded repetition \<^verbatim>\<open>{lo,hi}\<close> of a matcher \<open>m\<close>.\<close>

fun rep :: "(pystr \<Rightarrow> pystr list) \<Rightarrow> nat \<Rightarrow> nat \<Rightarrow> pystr \<Rightarrow> pystr list" where
  "rep m lo 0 s = (if lo = 0 then [s] else [])"
| "rep m lo (Suc hi) s =
     concat (map (rep m (lo - 1) hi) (m s)) @ (if lo = 0 then [s] else [])"

text \<open>
  Lazy unbounded repetition \<^verbatim>\<open>*?\<close>. A repetition that consumes nothing is not
  repeated; every other one shortens the rest, so \<open>length s\<close> rounds are all there are.
\<close>

fun lazy_star :: "(pystr \<Rightarrow> pystr list) \<Rightarrow> nat \<Rightarrow> pystr \<Rightarrow> pystr list" where
  "lazy_star m 0 s = [s]"
| "lazy_star m (Suc n) s =
     s # concat (map (lazy_star m n) (filter (\<lambda>t. length t < length s) (m s)))"

primrec rmatch :: "(nat \<Rightarrow> bool) \<Rightarrow> rx \<Rightarrow> pystr \<Rightarrow> pystr list" where
  "rmatch U Eps s = [s]"
| "rmatch U (Lit c) s = one_char (\<lambda>x. x = c) s"
| "rmatch U AnyChar s = one_char (\<lambda>x. x \<noteq> 10) s"
| "rmatch U Digit s = one_char (decimal_digit U) s"
| "rmatch U (Cls rs) s = one_char (\<lambda>x. in_cls x rs) s"
| "rmatch U (Seq a b) s = concat (map (rmatch U b) (rmatch U a s))"
| "rmatch U (Alt a b) s = rmatch U a s @ rmatch U b s"
| "rmatch U (Rep lo hi r) s = rep (rmatch U r) lo hi s"
| "rmatch U (StarLazy r) s = lazy_star (rmatch U r) (length s) s"

text \<open>\<^verbatim>\<open>pattern.match(line)\<close> followed by \<^verbatim>\<open>.group()\<close>: \<^verbatim>\<open>None\<close> or the matched prefix.\<close>

definition re_match :: "(nat \<Rightarrow> bool) \<Rightarrow> rx \<Rightarrow> pystr \<Rightarrow> pystr option" where
  "re_match U r s =
     (case rmatch U r s of [] \<Rightarrow> None | t # ts \<Rightarrow> Some (take (length s - length t) s))"

text \<open>The pattern matches the whole string (\<^verbatim>\<open>fullmatch\<close>): some way of matching ends at its end.\<close>

definition fullmatch :: "(nat \<Rightarrow> bool) \<Rightarrow> rx \<Rightarrow> pystr \<Rightarrow> bool" where
  "fullmatch U r s = ([] \<in> set (rmatch U r s))"

definition opt :: "rx \<Rightarrow> rx" where
  "opt r = Rep 0 1 r"

text \<open>
  The octet of \<^verbatim>\<open>ip_reg\<close> (line 166):
  \<^verbatim>\<open>(?:1\d\d|2[0-5][0-5]|2[0-4]\d|0?[1-9]\d|0?0?\d)\<close>
\<close>

definition octet :: rx where
  "octet =
     Alt (Seq (Lit (cp CHR ''1'')) (Seq Digit Digit))
    (Alt (Seq (Lit (cp CHR ''2'')) (Seq (Cls [(cp CHR ''0'', cp CHR ''5'')])
                                        (Cls [(cp CHR ''0'', cp CHR ''5'')])))
    (Alt (Seq (Lit (cp CHR ''2'')) (Seq (Cls [(cp CHR ''0'', cp CHR ''4'')]) Digit))
    (Alt (Seq (opt (Lit (cp CHR ''0''))) (Seq (Cls [(cp CHR ''1'', cp CHR ''9'')]) Digit))
         (Seq (opt (Lit (cp CHR ''0''))) (Seq (opt (Lit (cp CHR ''0''))) Digit)))))"

text \<open>\<^verbatim>\<open>ip_reg\<close>: \<^verbatim>\<open>(?:(?:octet)\.){3}(?:octet)\<close>\<close>

definition ip_reg :: rx where
  "ip_reg = Seq (Rep 3 3 (Seq octet (Lit (cp CHR ''.'')))) octet"

text \<open>
  \<^verbatim>\<open>hostname_reg\<close> (lines 168 to 170):
  \<^verbatim>\<open>([a-zA-Z0-9]|[a-zA-Z0-9][a-zA-Z0-9\-]{0,61}[a-zA-Z0-9])
  (\.([a-zA-Z0-9]|[a-zA-Z0-9][a-zA-Z0-9\-]{0,61}[a-zA-Z0-9]))*?\.\<close> followed by
  \<^verbatim>\<open>self.domain\<close>, pasted into the pattern as it is: a dot of the domain is the
  pattern's any-character, and a letter, a digit, a hyphen or an underscore stands for
  itself. \<open>pattern_plain\<close> tells the domains made of these characters only;
  \<open>hostname_reg\<close> is the compiled pattern for such a domain, and \<open>None\<close> for any other.
\<close>

definition alnum :: rx where
  "alnum = Cls [(cp CHR ''a'', cp CHR ''z''), (cp CHR ''A'', cp CHR ''Z''),
                (cp CHR ''0'', cp CHR ''9'')]"

definition alnum_dash :: rx where
  "alnum_dash =
     Cls [(cp CHR ''a'', cp CHR ''z''), (cp CHR ''A'', cp CHR ''Z''),
          (cp CHR ''0'', cp CHR ''9''), (cp CHR ''-'', cp CHR ''-'')]"

definition label :: rx where
  "label = Alt alnum (Seq alnum (Seq (Rep 0 61 alnum_dash) alnum))"

definition pattern_plain :: "pystr \<Rightarrow> bool" where
  "pattern_plain d =
     list_all (\<lambda>c. in_cls c [(cp CHR ''a'', cp CHR ''z''), (cp CHR ''A'', cp CHR ''Z''),
                             (cp CHR ''0'', cp CHR ''9''), (cp CHR ''-'', cp CHR ''-''),
                             (cp CHR ''_'', cp CHR ''_''), (cp CHR ''.'', cp CHR ''.'')]) d"

definition domain_rx :: "pystr \<Rightarrow> rx" where
  "domain_rx d = foldr (\<lambda>c r. Seq (if c = cp CHR ''.'' then AnyChar else Lit c) r) d Eps"

definition hostname_reg :: "pystr \<Rightarrow> rx option" where
  "hostname_reg self_domain =
     (if pattern_plain self_domain
      then Some (Seq label (Seq (StarLazy (Seq (Lit (cp CHR ''.'')) label))
                   (Seq (Lit (cp CHR ''.'')) (domain_rx self_domain))))
      else None)"

text \<open>The decimal value of a string of ASCII digits.\<close>

definition decimal :: "pystr \<Rightarrow> nat" where
  "decimal s = foldl (\<lambda>n c. 10 * n + (c - 48)) 0 s"

section \<open>The extractor: \<^verbatim>\<open>_reverse_ip_lookup\<close>\<close>

text \<open>
  \<^verbatim>\<open>
  def _reverse_ip_lookup(self, filename):
      print("Extracting ips and hostnames from text")
      ip_reg = re.compile(r"...")
      hostname_reg = re.compile(r"..." + self.domain)
      results = []
      with open(filename, "r") as f:
          for line in tqdm(f.readlines()):
              host = hostname_reg.match(line)
              if host:
                  host = host.group()
              ip = ip_reg.match(line)
              if ip:
                  ip = ip.group()
              try:
                  if host is not None and ip is None:
                      ip = socket.gethostbyname(host)
                  if ip is not None and host is None:
                      host = socket.gethostbyaddr(ip)
              except BaseException:
                  pass
              if host or ip:
                  results += [(host, ip)]
      return results
  \<close>
  The resolver is the environment: two functions that return an address, a host entry,
  or fail. The model returns, beside the observations, the lookups it made. The file is
  given by its lines (it could be opened and read).
\<close>

record resolver =
  gethostbyname :: "pystr \<Rightarrow> exn + pystr"
  gethostbyaddr :: "pystr \<Rightarrow> exn + (pystr \<times> pystr list \<times> pystr list)"

datatype lookup = Forward pystr | Reverse pystr

text \<open>Python's truth value of \<^verbatim>\<open>host\<close> and of \<^verbatim>\<open>ip\<close>.\<close>

fun truthy_host :: "host_val option \<Rightarrow> bool" where
  "truthy_host None = False"
| "truthy_host (Some (HostName n)) = (n \<noteq> [])"
| "truthy_host (Some (HostEnt n as is)) = True"

fun truthy_ip :: "pystr option \<Rightarrow> bool" where
  "truthy_ip None = False"
| "truthy_ip (Some a) = (a \<noteq> [])"

text \<open>The \<^verbatim>\<open>try\<close> block of the loop (lines 180 to 186).\<close>

definition resolve :: "resolver \<Rightarrow> pystr option \<Rightarrow> pystr option \<Rightarrow> observation \<times> lookup list" where
  "resolve dns host0 ip0 =
     (case (host0, ip0) of
        (Some h, None) \<Rightarrow>
          (case gethostbyname dns h of
             Inl e \<Rightarrow> ((Some (HostName h), None), [Forward h])
           | Inr a \<Rightarrow> ((Some (HostName h), Some a), [Forward h]))
      | (None, Some a) \<Rightarrow>
          (case gethostbyaddr dns a of
             Inl e \<Rightarrow> ((None, Some a), [Reverse a])
           | Inr (n, as, is) \<Rightarrow> ((Some (HostEnt n as is), Some a), [Reverse a]))
      | (h, a) \<Rightarrow> ((map_option HostName h, a), []))"

text \<open>The body of the loop, for one line; \<open>host_rx\<close> is the compiled \<^verbatim>\<open>hostname_reg\<close>.\<close>

definition extract_line :: "(nat \<Rightarrow> bool) \<Rightarrow> resolver \<Rightarrow> rx \<Rightarrow> pystr
    \<Rightarrow> observation list \<times> lookup list" where
  "extract_line U dns host_rx line =
     (let host0 = re_match U host_rx line;
          ip0 = re_match U ip_reg line;
          (p, lk) = resolve dns host0 ip0
      in (if truthy_host (fst p) \<or> truthy_ip (snd p) then [p] else [], lk))"

text \<open>
  The function: \<^verbatim>\<open>re\<close> is looked up at line 165, where the patterns are compiled, and
  \<^verbatim>\<open>tqdm\<close> at line 173, before the first line is read.
\<close>

definition reverse_ip_lookup :: "module_names \<Rightarrow> (nat \<Rightarrow> bool) \<Rightarrow> resolver \<Rightarrow> pystr
    \<Rightarrow> pystr list \<Rightarrow> observation list outcome \<times> lookup list" where
  "reverse_ip_lookup g U dns self_domain lines =
     (if \<not> bound g ''re'' then (Raises (NameError ''re''), [])
      else
       (case hostname_reg self_domain of
          None \<Rightarrow> (Unmodelled, [])
        | Some host_rx \<Rightarrow>
            if \<not> bound g ''tqdm'' then (Raises (NameError ''tqdm''), [])
            else (let rs = map (extract_line U dns host_rx) lines
                  in (Returns (concat (map fst rs)), concat (map snd rs)))))"

section \<open>The enricher: \<^verbatim>\<open>_get_headers\<close> and \<^verbatim>\<open>headers\<close>\<close>

text \<open>
  \<^verbatim>\<open>
  def _get_headers(ip):
      http = None
      https = None
      try:
          http = requests.get(f"http://{ip}", headers=headers, timeout=1, verify=False).headers
          http = str(http)
      except Exception as er:
          logger.exception(f"Could not retrieve http header for ip: {ip}")
      try:
          https = requests.get(f"https://{ip}", headers=headers, timeout=1, verify=False).headers
          https = str(https)
      except BaseException:
          logger.exception(f"Could not retrieve https header for ip: {ip}")
      return ip, (http, https)
  \<close>
  The network is the environment: \<open>requests_get url\<close> is the text of the response
  headers or the exception the request raises. \<^verbatim>\<open>requests\<close> is looked up inside each
  \<^verbatim>\<open>try\<close>, so that its \<^verbatim>\<open>NameError\<close> goes to the handler; \<^verbatim>\<open>logger\<close> is looked up
  inside the handlers, so that its \<^verbatim>\<open>NameError\<close> leaves the function. The first handler
  catches \<^verbatim>\<open>Exception\<close>, the second \<^verbatim>\<open>BaseException\<close>. The result is what the function
  returns or raises, with the lines it logged.
\<close>

type_synonym header_result = "pystr \<times> (pystr option \<times> pystr option)"

definition request :: "module_names \<Rightarrow> (pystr \<Rightarrow> exn + pystr) \<Rightarrow> pystr \<Rightarrow> exn + pystr" where
  "request g requests_get url =
     (if bound g ''requests'' then requests_get url else Inl (NameError ''requests''))"

definition log_exception :: "module_names \<Rightarrow> pystr \<Rightarrow> pystr list \<Rightarrow> exn + pystr list" where
  "log_exception g msg logged =
     (if bound g ''logger'' then Inr (logged @ [msg]) else Inl (NameError ''logger''))"

definition get_https :: "module_names \<Rightarrow> (pystr \<Rightarrow> exn + pystr) \<Rightarrow> pystr \<Rightarrow> pystr option
    \<Rightarrow> pystr list \<Rightarrow> header_result outcome \<times> pystr list" where
  "get_https g requests_get ident http logged =
     (case request g requests_get (ustr ''https://'' @ ident) of
        Inl e \<Rightarrow>
          (case log_exception g (ustr ''Could not retrieve https header for ip: '' @ ident)
                  logged of
             Inl e' \<Rightarrow> (Raises e', logged)
           | Inr logged' \<Rightarrow> (Returns (ident, (http, None)), logged'))
      | Inr h \<Rightarrow> (Returns (ident, (http, Some h)), logged))"

definition get_headers :: "module_names \<Rightarrow> (pystr \<Rightarrow> exn + pystr) \<Rightarrow> pystr
    \<Rightarrow> header_result outcome \<times> pystr list" where
  "get_headers g requests_get ident =
     (case request g requests_get (ustr ''http://'' @ ident) of
        Inl e \<Rightarrow>
          if is_Exception e
          then (case log_exception g (ustr ''Could not retrieve http header for ip: '' @ ident)
                       [] of
                  Inl e' \<Rightarrow> (Raises e', [])
                | Inr logged \<Rightarrow> get_https g requests_get ident None logged)
          else (Raises e, [])
      | Inr h \<Rightarrow> get_https g requests_get ident (Some h) [])"

text \<open>
  The statements of \<^verbatim>\<open>headers\<close>.
  \<^verbatim>\<open>SELECT ip FROM data WHERE ip IS NOT NULL AND domain='...'\<close> (lines 227 and 250): the
  ips of the rows of the domain, one per row, in the order the engine visits the rows.
\<close>

definition select_ip :: "('k::linorder) engine \<Rightarrow> stmt \<Rightarrow> pystr \<Rightarrow> store \<Rightarrow> pystr list" where
  "select_ip eng q d s =
     List.map_filter (\<lambda>r. if domain r = Some d then ip r else None) (scan eng q (data s))"

text \<open>
  \<^verbatim>\<open>UPDATE data SET http_headers=?, https_headers=? WHERE <column> = ? AND domain= ? LIMIT 1\<close>
  (lines 242 and 263). An SQLite without the option for \<^verbatim>\<open>LIMIT\<close> on \<^verbatim>\<open>UPDATE\<close> rejects
  the statement. One with the option updates the first row that satisfies the condition
  in the order the engine visits the rows, and no other; the row is told by its rowid.
\<close>

definition update_limit1 :: "('k::linorder) engine \<Rightarrow> stmt \<Rightarrow> (row \<Rightarrow> bool) \<Rightarrow> (row \<Rightarrow> row)
    \<Rightarrow> row list \<Rightarrow> exn + row list" where
  "update_limit1 eng q P f rs =
     (if \<not> limit_on_update eng then Inl (OperationalError ''near LIMIT: syntax error'')
      else Inr (case find P (scan eng q rs) of
                  None \<Rightarrow> rs
                | Some r0 \<Rightarrow> map (\<lambda>r. if domainid r = domainid r0 then f r else r) rs))"

definition set_headers :: "pystr option \<Rightarrow> pystr option \<Rightarrow> row \<Rightarrow> row" where
  "set_headers http https r = r\<lparr>http_headers := http, https_headers := https\<rparr>"

definition update_headers_where_ip :: "('k::linorder) engine \<Rightarrow> pystr \<Rightarrow> pystr \<Rightarrow> pystr option
    \<Rightarrow> pystr option \<Rightarrow> store \<Rightarrow> exn + store" where
  "update_headers_where_ip eng d ident http https s =
     map_sum id (\<lambda>rs. s\<lparr>data := rs\<rparr>)
       (update_limit1 eng Wave1_update (\<lambda>r. ip r = Some ident \<and> domain r = Some d)
          (set_headers http https) (data s))"

definition update_headers_where_hostname :: "('k::linorder) engine \<Rightarrow> pystr \<Rightarrow> pystr
    \<Rightarrow> pystr option \<Rightarrow> pystr option \<Rightarrow> store \<Rightarrow> exn + store" where
  "update_headers_where_hostname eng d ident http https s =
     map_sum id (\<lambda>rs. s\<lparr>data := rs\<rparr>)
       (update_limit1 eng Wave2_update (\<lambda>r. hostname r = Some ident \<and> domain r = Some d)
          (set_headers http https) (data s))"

text \<open>
  \<^verbatim>\<open>dict(pairs)\<close>: a later pair with a key seen before replaces the value and keeps
  the key's place.
\<close>

definition dict_of :: "('a \<times> 'b) list \<Rightarrow> ('a \<times> 'b) list" where
  "dict_of ps = fold (\<lambda>p m. AList.update (fst p) (snd p) m) ps []"

text \<open>
  \<^verbatim>\<open>
  def headers(self):
      dbconn = sqlite3.connect(self.dbfile)
      dbcurs = dbconn.cursor()
      ips = dbcurs.execute(f"""SELECT ip FROM data WHERE ip IS NOT NULL
                               AND domain='{self.domain.replace('.','_')}'""").fetchall()
      ips = [item[0] for item in ips]
      with ThreadPoolExecutor(max_workers=40) as pool:
          ip_headers = dict(tqdm(pool.map(Robot.grab_header, ips), total=len(ips)))
      dbcurs.execute('BEGIN TRANSACTION')
      domain_rep = self.domain.replace(".", "_")
      for ip, (http, https) in ip_headers.items():
          dbcurs.execute("""UPDATE data SET http_headers=?, https_headers=?
                            WHERE ip = ? AND domain= ? LIMIT 1;""", (http, https, ip, domain_rep))
      dbcurs.execute("COMMIT")

      hostnames = dbcurs.execute(f"""SELECT ip FROM data WHERE ip IS NOT NULL
                               AND domain='{self.domain.replace('.','_')}'""").fetchall()
      hostnames = [item[0] for item in hostnames]
      with ThreadPoolExecutor(max_workers=40) as pool:
          hostname_headers = dict(tqdm(pool.map(Robot.grab_header, hostnames), total=len(hostnames)))
      dbcurs.execute('BEGIN TRANSACTION')
      domain_rep = self.domain.replace(".", "_")
      for hostname, (http, https) in hostname_headers.items():
          dbcurs.execute("""UPDATE data SET http_headers=?, https_headers=?
                            WHERE hostname = ? AND domain= ? LIMIT 1;""",
                         (http, https, hostname, domain_rep))
      dbcurs.execute("COMMIT")
      dbconn.close()
  \<close>
  \<^verbatim>\<open>ThreadPoolExecutor\<close>, \<^verbatim>\<open>tqdm\<close> and \<^verbatim>\<open>Robot\<close> are looked up, in this order, after
  the first \<^verbatim>\<open>SELECT\<close>. What \<^verbatim>\<open>Robot.grab_header\<close> answers is the parameter
  \<open>grab_header\<close>, a function from an identifier to a pair like the one
  \<^verbatim>\<open>_get_headers\<close> returns. \<open>second_wave_ids\<close> is the list the code binds to
  \<^verbatim>\<open>hostnames\<close>.
\<close>

definition first_wave_ids :: "('k::linorder) engine \<Rightarrow> pystr \<Rightarrow> store \<Rightarrow> pystr list" where
  "first_wave_ids eng self_domain s = select_ip eng Wave1_select (replace_dots self_domain) s"

definition second_wave_ids :: "('k::linorder) engine \<Rightarrow> pystr \<Rightarrow> store \<Rightarrow> pystr list" where
  "second_wave_ids eng self_domain s = select_ip eng Wave2_select (replace_dots self_domain) s"

definition pool_names :: "module_names \<Rightarrow> exn option" where
  "pool_names g =
     (if \<not> bound g ''ThreadPoolExecutor'' then Some (NameError ''ThreadPoolExecutor'')
      else if \<not> bound g ''tqdm'' then Some (NameError ''tqdm'')
      else if \<not> bound g ''Robot'' then Some (NameError ''Robot'')
      else None)"

text \<open>The loop of updates: the first statement that raises ends it and leaves the function.\<close>

fun run_updates :: "(pystr \<Rightarrow> pystr option \<Rightarrow> pystr option \<Rightarrow> store \<Rightarrow> exn + store)
    \<Rightarrow> header_result list \<Rightarrow> store \<Rightarrow> store \<times> exn option" where
  "run_updates upd [] s = (s, None)"
| "run_updates upd (item # items) s =
     (case upd (fst item) (fst (snd item)) (snd (snd item)) s of
        Inl e \<Rightarrow> (s, Some e)
      | Inr s' \<Rightarrow> run_updates upd items s')"

definition write_wave :: "(pystr \<Rightarrow> pystr option \<Rightarrow> pystr option \<Rightarrow> store \<Rightarrow> exn + store)
    \<Rightarrow> header_result list \<Rightarrow> conn \<Rightarrow> unit outcome \<times> conn" where
  "write_wave upd items c =
     (case begin_transaction c of
        Inl e \<Rightarrow> (Raises e, c)
      | Inr c1 \<Rightarrow>
         (case run_updates upd items (current c1) of
            (s, Some e) \<Rightarrow> (Raises e, with_current s c1)
          | (s, None) \<Rightarrow>
             (case commit (with_current s c1) of
                Inl e \<Rightarrow> (Raises e, with_current s c1)
              | Inr c2 \<Rightarrow> (Returns (), c2))))"

definition headers :: "module_names \<Rightarrow> ('k::linorder) engine \<Rightarrow> (pystr \<Rightarrow> header_result)
    \<Rightarrow> pystr \<Rightarrow> conn \<Rightarrow> unit outcome \<times> conn" where
  "headers g eng grab_header self_domain c =
     (if \<not> quote_free self_domain then (Unmodelled, c)
      else
       (let ips = first_wave_ids eng self_domain (current c) in
        case pool_names g of
          Some e \<Rightarrow> (Raises e, c)
        | None \<Rightarrow>
           (let ip_headers = dict_of (map grab_header ips) in
            case write_wave (update_headers_where_ip eng (replace_dots self_domain))
                   ip_headers c of
              (Returns u, c1) \<Rightarrow>
                (let hostnames = second_wave_ids eng self_domain (current c1);
                     hostname_headers = dict_of (map grab_header hostnames)
                 in write_wave (update_headers_where_hostname eng (replace_dots self_domain))
                      hostname_headers c1)
            | (r, c1) \<Rightarrow> (r, c1))))"

section \<open>The exporter: \<^verbatim>\<open>dump_to_file\<close>\<close>


definition select_distinct_hostname :: "('k::linorder) engine \<Rightarrow> pystr \<Rightarrow> store \<Rightarrow> pystr list" where
  "select_distinct_hostname eng d s =
     first_seen (List.map_filter (\<lambda>r. if domain r = Some d then hostname r else None)
                   (scan eng Dump_hostnames (data s)))"






text \<open>
  The file system is a map from paths to contents. The operating system is the
  environment: \<^verbatim>\<open>join_abs\<close> (of the package), \<^verbatim>\<open>json.dumps\<close> and \<^verbatim>\<open>repr\<close> are
  parameters, and so is what becomes of a \<^verbatim>\<open>with open(path, 'w') as f: f.write(content)\<close>:
  the file is written, or \<^verbatim>\<open>open\<close> raises \<^verbatim>\<open>OSError\<close> and the file system stays as
  it is, or the file is opened (and emptied) and the write raises \<^verbatim>\<open>OSError\<close>, leaving in
  the file what had reached it.
\<close>

type_synonym fs = "pystr \<rightharpoonup> pystr"














section \<open>The indexer: \<^verbatim>\<open>_gen_output\<close>\<close>



text \<open>
  An entry of the index. The index is a Python dictionary keyed by the value of the ip
  column, which is a string or \<^verbatim>\<open>None\<close>; it is an association list in insertion order.
  \<^verbatim>\<open>glob.glob(pattern, recursive=True)\<close> is a parameter, and so is \<open>join_cwd\<close>, which
  stands for \<^verbatim>\<open>join_abs(getcwd(), file)\<close>.
\<close>

record entry =
  hostnames :: "pystr option list"
  http_header :: "pystr option"
  https_header :: "pystr option"
  images :: "pystr list"









section \<open>Vocabulary of the properties\<close>




text \<open>The failures of a request that claim C8 names: timeout, connection refused, TLS error.\<close>

definition net_failure :: "exn \<Rightarrow> bool" where
  "net_failure e = (e = Timeout \<or> e = ConnectionError \<or> e = SSLError)"

text \<open>What a request contributes to the result and to the log.\<close>

definition fetched :: "(pystr \<Rightarrow> exn + pystr) \<Rightarrow> pystr \<Rightarrow> pystr option" where
  "fetched requests_get url = (case requests_get url of Inl e \<Rightarrow> None | Inr h \<Rightarrow> Some h)"

definition failure_log :: "(pystr \<Rightarrow> exn + pystr) \<Rightarrow> pystr \<Rightarrow> pystr \<Rightarrow> pystr list" where
  "failure_log requests_get url line = (case requests_get url of Inl e \<Rightarrow> [line] | Inr h \<Rightarrow> [])"

text \<open>
  The file system after a list of writes that all succeed, and the environments in which
  every write of a list succeeds.
\<close>

definition apply_writes :: "(pystr \<times> pystr) list \<Rightarrow> fs \<Rightarrow> fs" where
  "apply_writes ws f = fold (\<lambda>w g. g(fst w \<mapsto> snd w)) ws f"


section \<open>Example inputs\<close>

definition obs_a :: observation where
  "obs_a = (Some (HostName (ustr ''a.example.com'')), Some (ustr ''9.9.9.9''))"

definition obs_b :: observation where
  "obs_b = (Some (HostName (ustr ''b.example.com'')), Some (ustr ''8.8.8.8''))"



text \<open>What the extractor yields when the reverse lookup of 1.2.3.4 answers.\<close>

definition obs_hostent :: observation where
  "obs_hostent =
     (Some (HostEnt (ustr ''host.example.com'') [] [ustr ''1.2.3.4'']), Some (ustr ''1.2.3.4''))"

text \<open>A store in which the domain is registered and the table has no row.\<close>

definition registered_store :: store where
  "registered_store = \<lparr>domains = [ustr ''example_com''], data = []\<rparr>"

definition row_a :: row where
  "row_a = \<lparr>domainid = 1, ip = Some (ustr ''9.9.9.9''), hostname = Some (ustr ''a.example.com''),
            http_headers = None, https_headers = None, domain = Some (ustr ''example_com'')\<rparr>"

definition store_a :: store where
  "store_a = \<lparr>domains = [ustr ''example_com''], data = [row_a]\<rparr>"












text \<open>A fetch that answers every identifier with headers that name it.\<close>

definition grab_named :: "pystr \<Rightarrow> header_result" where
  "grab_named ident =
     (ident, (Some (ustr ''http of '' @ ident), Some (ustr ''https of '' @ ident)))"

text \<open>
  A resolver whose reverse lookups answer \<^verbatim>\<open>host.example.com\<close>, and one whose every
  lookup fails.
\<close>

definition dns_answers :: resolver where
  "dns_answers =
     \<lparr>gethostbyname = (\<lambda>h. Inl Timeout),
      gethostbyaddr = (\<lambda>a. Inr (ustr ''host.example.com'', [], [a]))\<rparr>"

definition no_dns :: resolver where
  "no_dns = \<lparr>gethostbyname = (\<lambda>h. Inl Timeout), gethostbyaddr = (\<lambda>a. Inl Timeout)\<rparr>"

text \<open>The decimal digits U+0660 to U+0669, as a table of the digits beyond ASCII.\<close>

definition arabic_indic :: "nat \<Rightarrow> bool" where
  "arabic_indic c = (1632 \<le> c \<and> c \<le> 1641)"







section \<open>Rows in the order of a statement\<close>

lemma set_scan [simp]: "set (scan eng q rs) = set rs"
  by (simp add: scan_def)

lemma length_scan [simp]: "length (scan eng q rs) = length rs"
  by (simp add: scan_def)

lemma set_first_seen [simp]: "set (first_seen xs) = set xs"
  by (induction xs rule: first_seen.induct) auto

lemma distinct_first_seen [simp]: "distinct (first_seen xs)"
  by (induction xs rule: first_seen.induct) auto

lemma insort_const: "insort_key (\<lambda>x. k) x xs = x # xs"
  by (cases xs) simp_all

lemma sort_key_const: "sort_key (\<lambda>x. k) xs = xs"
  by (induction xs) (simp_all add: insort_const)

text \<open>A statement that \<open>sqlite_engine\<close> runs on the table visits the rows in rowid order.\<close>

lemma scan_table_order:
  "\<not> index_stmt q \<Longrightarrow> scan (sqlite_engine lim) q rs = rs"
  by (simp add: scan_def sqlite_engine_def sort_key_const)


section \<open>The store: bulk insert\<close>
















text \<open>
  Claim C1 says that a pair of the batch that violates \<^verbatim>\<open>UNIQUE(ip, hostname)\<close> is
  skipped without raising and that every other pair of the batch, those after it included,
  is still inserted and committed. The code does not do that. With \<^verbatim>\<open>self\<close> bound to an
  object of domain \<^verbatim>\<open>example.com\<close>, on a table without rows in which the domain is
  registered, the batch of \<^verbatim>\<open>(a.example.com, 9.9.9.9)\<close>, the same pair again and
  \<^verbatim>\<open>(b.example.com, 8.8.8.8)\<close> leaves one row: the second statement raises, the handler
  that encloses the loop reports that pair, and the loop is over; the third pair, which
  violates nothing, is never inserted, and the call returns and commits. In the module as
  its text leaves it, the same call raises \<^verbatim>\<open>NameError\<close> at line 78, inside the
  transaction it has opened, and inserts nothing.
\<close>

theorem build_db_stops_at_first_violation:
  "build_db (completed (ustr ''example.com'')) [obs_a, obs_a, obs_b] (connect registered_store) =
     (Returns (), connect (registered_store\<lparr>data := [row_a]\<rparr>), [obs_a])
   \<and> build_db shipped [obs_a, obs_a, obs_b] (connect registered_store) =
     (Raises (NameError ''self''),
      \<lparr>durable = registered_store, txn = Some registered_store\<rparr>, [])"
  by code_simp




section \<open>The enricher\<close>

text \<open>
  Claim C2 says that the second wave selects the distinct hostnames of the domain and is
  never driven by the ip column. The code does not do that. On the table whose one row is
  \<^verbatim>\<open>(9.9.9.9, a.example.com)\<close> the identifiers of the second wave are the ip
  \<^verbatim>\<open>9.9.9.9\<close>, where the hostnames of the domain are \<^verbatim>\<open>a.example.com\<close>. With every
  name bound and an SQLite that accepts \<^verbatim>\<open>LIMIT\<close> on \<^verbatim>\<open>UPDATE\<close>, \<^verbatim>\<open>headers\<close>
  returns and the row holds the headers fetched for the ip: the second wave fetched the ip
  again and its update, \<^verbatim>\<open>WHERE hostname = '9.9.9.9'\<close>, met no row. With an SQLite that
  does not accept \<^verbatim>\<open>LIMIT\<close> there, \<^verbatim>\<open>headers\<close> raises at the first update, inside the
  transaction. In the module as its text leaves it, \<^verbatim>\<open>headers\<close> raises \<^verbatim>\<open>NameError\<close>
  before any fetch.
\<close>

theorem second_wave_reads_ip_column:
  "second_wave_ids (sqlite_engine True) (ustr ''example.com'') store_a = [ustr ''9.9.9.9'']
   \<and> select_distinct_hostname (sqlite_engine True) (replace_dots (ustr ''example.com'')) store_a
       = [ustr ''a.example.com'']
   \<and> headers (completed (ustr ''example.com'')) (sqlite_engine True) grab_named
         (ustr ''example.com'') (connect store_a) =
       (Returns (),
        connect (store_a\<lparr>data := [row_a\<lparr>http_headers := Some (ustr ''http of 9.9.9.9''),
                                          https_headers := Some (ustr ''https of 9.9.9.9'')\<rparr>]\<rparr>))
   \<and> headers (completed (ustr ''example.com'')) (sqlite_engine False) grab_named
         (ustr ''example.com'') (connect store_a) =
       (Raises (OperationalError ''near LIMIT: syntax error''),
        \<lparr>durable = store_a, txn = Some store_a\<rparr>)
   \<and> headers shipped (sqlite_engine True) grab_named (ustr ''example.com'') (connect store_a) =
       (Raises (NameError ''ThreadPoolExecutor''), connect store_a)"
  by code_simp



text \<open>An SQLite without the option rejects the update, whatever the table holds.\<close>

lemma update_rejected_without_limit:
  "\<not> limit_on_update eng \<Longrightarrow>
     update_headers_where_ip eng d i http https s =
       Inl (OperationalError ''near LIMIT: syntax error'')"
  by (simp add: update_headers_where_ip_def update_limit1_def)




text \<open>
  Claim C8 says that a failure of either request is logged and never raised to the
  caller, and that the function always returns the identifier with its two results. The
  code does not do that. In the module as its text leaves it neither \<^verbatim>\<open>requests\<close> nor
  \<^verbatim>\<open>logger\<close> is bound: for every identifier and every network the first request raises
  \<^verbatim>\<open>NameError\<close>, the first handler catches it and raises \<^verbatim>\<open>NameError\<close> itself when it
  reads \<^verbatim>\<open>logger\<close>; the exception leaves the function, nothing is logged and the second
  request is never made. With the two names bound, on a network on which every request
  times out, the same body returns the identifier with two null results and logs one line
  for each request.
\<close>

theorem get_headers_raises_name_error:
  "get_headers shipped requests_get ident = (Raises (NameError ''logger''), [])
   \<and> get_headers (completed sd) (\<lambda>url. Inl Timeout) ident =
       (Returns (ident, (None, None)),
        [ustr ''Could not retrieve http header for ip: '' @ ident,
         ustr ''Could not retrieve https header for ip: '' @ ident])"
  by (simp add: get_headers_def get_https_def request_def log_exception_def bound_def
      shipped_def completed_def)

text \<open>
  With \<^verbatim>\<open>requests\<close> and \<^verbatim>\<open>logger\<close> bound, and a first request that answers or fails in
  one of the three ways, the function returns the identifier with the result of each
  request, null for the one that failed, and logs one line for each request that failed,
  whatever the second request does.
\<close>

lemma get_headers_names_bound:
  assumes "bound g ''requests''" "bound g ''logger''"
    and "case requests_get (ustr ''http://'' @ ident) of Inl e \<Rightarrow> net_failure e | Inr h \<Rightarrow> True"
  shows "get_headers g requests_get ident =
           (Returns (ident, (fetched requests_get (ustr ''http://'' @ ident),
                             fetched requests_get (ustr ''https://'' @ ident))),
            failure_log requests_get (ustr ''http://'' @ ident)
              (ustr ''Could not retrieve http header for ip: '' @ ident)
          @ failure_log requests_get (ustr ''https://'' @ ident)
              (ustr ''Could not retrieve https header for ip: '' @ ident))"
  using assms
  by (auto simp: get_headers_def get_https_def request_def log_exception_def fetched_def
      failure_log_def net_failure_def split: sum.splits)

section \<open>The extractor\<close>

text \<open>
  Claim C3 says that the line \<^verbatim>\<open>1.2.3.4 host.example.com\<close>, with the domain
  \<^verbatim>\<open>example.com\<close>, gives the pair \<^verbatim>\<open>(host.example.com, 1.2.3.4)\<close> and no DNS lookup.
  The code does not do that. In the module as its text leaves it the function raises
  \<^verbatim>\<open>NameError\<close> at its first statement, whatever the line. With every name bound, both
  patterns are tried at the start of the line: the ip is found there and the hostname is
  not, so the function makes the reverse lookup of \<^verbatim>\<open>1.2.3.4\<close>. When the lookup answers,
  the host of the pair is the triple the lookup returned, not a name, and the statement of
  \<^verbatim>\<open>_build_db\<close> cannot bind it: the pair is reported and never stored. When the lookup
  fails, the pair is \<^verbatim>\<open>(None, 1.2.3.4)\<close>.
\<close>

theorem extract_scenario:
  "reverse_ip_lookup shipped U dns (ustr ''example.com'') [ustr ''1.2.3.4 host.example.com'']
     = (Raises (NameError ''re''), [])
   \<and> reverse_ip_lookup (completed (ustr ''example.com'')) U dns_answers (ustr ''example.com'')
         [ustr ''1.2.3.4 host.example.com'']
     = (Returns [obs_hostent], [Reverse (ustr ''1.2.3.4'')])
   \<and> reverse_ip_lookup (completed (ustr ''example.com'')) U no_dns (ustr ''example.com'')
         [ustr ''1.2.3.4 host.example.com'']
     = (Returns [(None, Some (ustr ''1.2.3.4''))], [Reverse (ustr ''1.2.3.4'')])
   \<and> build_db (completed (ustr ''example.com'')) [obs_hostent] (connect registered_store)
     = (Returns (), connect registered_store, [obs_hostent])"
  by code_simp

subsection \<open>The octet of the ip pattern\<close>

lemma mem_one_char: "t \<in> set (one_char P s) \<longleftrightarrow> (\<exists>x. s = x # t \<and> P x)"
  by (cases s) (auto simp: one_char_def)

text \<open>The patterns that consume exactly one code point.\<close>

lemma single_lit: "(t \<in> set (rmatch U (Lit c) s)) = (\<exists>x. s = x # t \<and> x = c)"
  by (simp add: mem_one_char)

lemma single_digit: "(t \<in> set (rmatch U Digit s)) = (\<exists>x. s = x # t \<and> decimal_digit U x)"
  by (simp add: mem_one_char)

lemma single_cls: "(t \<in> set (rmatch U (Cls [p]) s)) = (\<exists>x. s = x # t \<and> in_range x p)"
  by (simp add: mem_one_char in_cls_def)

lemma mem_opt: "t \<in> set (rmatch U (opt r) s) \<longleftrightarrow> t \<in> set (rmatch U r s) \<or> t = s"
  by (auto simp: opt_def)

lemma mem_seq:
  "t \<in> set (rmatch U (Seq a b) s) \<longleftrightarrow> (\<exists>u. u \<in> set (rmatch U a s) \<and> t \<in> set (rmatch U b u))"
  by auto

lemma full3:
  assumes "\<And>s t. (t \<in> set (rmatch U a s)) = (\<exists>x. s = x # t \<and> A x)"
    and "\<And>s t. (t \<in> set (rmatch U b s)) = (\<exists>x. s = x # t \<and> B x)"
    and "\<And>s t. (t \<in> set (rmatch U c s)) = (\<exists>x. s = x # t \<and> C x)"
  shows "[] \<in> set (rmatch U (Seq a (Seq b c)) s) \<longleftrightarrow>
           (\<exists>x y z. s = [x, y, z] \<and> A x \<and> B y \<and> C z)"
  unfolding mem_seq assms
  by auto

lemma full_opt3:
  assumes "\<And>s t. (t \<in> set (rmatch U a s)) = (\<exists>x. s = x # t \<and> A x)"
    and "\<And>s t. (t \<in> set (rmatch U b s)) = (\<exists>x. s = x # t \<and> B x)"
    and "\<And>s t. (t \<in> set (rmatch U c s)) = (\<exists>x. s = x # t \<and> C x)"
  shows "[] \<in> set (rmatch U (Seq (opt a) (Seq b c)) s) \<longleftrightarrow>
           (\<exists>x y z. s = [x, y, z] \<and> A x \<and> B y \<and> C z) \<or> (\<exists>y z. s = [y, z] \<and> B y \<and> C z)"
  unfolding mem_seq mem_opt assms
  by auto

lemma full_opt_opt:
  assumes "\<And>s t. (t \<in> set (rmatch U a s)) = (\<exists>x. s = x # t \<and> A x)"
    and "\<And>s t. (t \<in> set (rmatch U b s)) = (\<exists>x. s = x # t \<and> B x)"
    and "\<And>s t. (t \<in> set (rmatch U c s)) = (\<exists>x. s = x # t \<and> C x)"
  shows "[] \<in> set (rmatch U (Seq (opt a) (Seq (opt b) c)) s) \<longleftrightarrow>
           (\<exists>x y z. s = [x, y, z] \<and> A x \<and> B y \<and> C z) \<or> (\<exists>x z. s = [x, z] \<and> A x \<and> C z)
         \<or> (\<exists>y z. s = [y, z] \<and> B y \<and> C z) \<or> (\<exists>z. s = [z] \<and> C z)"
  unfolding mem_seq mem_opt assms
  by auto

lemma cp_codes:
  "cp CHR ''0'' = 48" "cp CHR ''1'' = 49" "cp CHR ''2'' = 50" "cp CHR ''4'' = 52"
  "cp CHR ''5'' = 53" "cp CHR ''9'' = 57" "cp CHR ''.'' = 46"
  by (simp_all add: cp_def)

text \<open>The strings the octet matches in full, alternative by alternative.\<close>

lemma octet_chars:
  "fullmatch U octet s \<longleftrightarrow>
     (\<exists>x y z. s = [x, y, z] \<and> x = 49 \<and> decimal_digit U y \<and> decimal_digit U z) \<or>
     (\<exists>x y z. s = [x, y, z] \<and> x = 50 \<and> in_range y (48, 53) \<and> in_range z (48, 53)) \<or>
     (\<exists>x y z. s = [x, y, z] \<and> x = 50 \<and> in_range y (48, 52) \<and> decimal_digit U z) \<or>
     ((\<exists>x y z. s = [x, y, z] \<and> x = 48 \<and> in_range y (49, 57) \<and> decimal_digit U z) \<or>
      (\<exists>y z. s = [y, z] \<and> in_range y (49, 57) \<and> decimal_digit U z)) \<or>
     ((\<exists>x y z. s = [x, y, z] \<and> x = 48 \<and> y = 48 \<and> decimal_digit U z) \<or>
      (\<exists>x z. s = [x, z] \<and> x = 48 \<and> decimal_digit U z) \<or>
      (\<exists>y z. s = [y, z] \<and> y = 48 \<and> decimal_digit U z) \<or>
      (\<exists>z. s = [z] \<and> decimal_digit U z))"
  unfolding fullmatch_def octet_def cp_codes rmatch.simps(7) set_append Un_iff
    full3 [OF single_lit single_digit single_digit]
    full3 [OF single_lit single_cls single_cls]
    full3 [OF single_lit single_cls single_digit]
    full_opt3 [OF single_lit single_cls single_digit]
    full_opt_opt [OF single_lit single_lit single_digit]
  by (rule refl)

lemma decimal1: "decimal [a] = a - 48"
  by (simp add: decimal_def)

lemma decimal2: "decimal [a, b] = 10 * (a - 48) + (b - 48)"
  by (simp add: decimal_def)

lemma decimal3: "decimal [a, b, c] = 100 * (a - 48) + 10 * (b - 48) + (c - 48)"
  by (simp add: decimal_def)

lemma ascii_decimal: "ascii_digit c \<Longrightarrow> decimal_digit U c = True"
  by (simp add: decimal_digit_def ascii_digit_def)

lemma octet0: "\<not> fullmatch U octet []"
  unfolding octet_chars by simp

lemma octet1: "ascii_digit a \<Longrightarrow> fullmatch U octet [a]"
  unfolding octet_chars by (simp add: ascii_decimal)

lemma octet2:
  assumes "ascii_digit a" "ascii_digit b"
  shows "fullmatch U octet [a, b]"
proof -
  have "a = 48 \<or> in_range a (49, 57)"
    using assms(1) by (auto simp: ascii_digit_def in_range_def)
  then show ?thesis
    unfolding octet_chars by (auto simp: ascii_decimal [OF assms(2)])
qed

lemma octet3:
  assumes "ascii_digit a" "ascii_digit b" "ascii_digit c"
  shows "fullmatch U octet [a, b, c] \<longleftrightarrow> decimal [a, b, c] \<le> 255"
proof -
  have "fullmatch U octet [a, b, c] \<longleftrightarrow>
          a = 49 \<or> (a = 50 \<and> in_range b (48, 53) \<and> in_range c (48, 53))
        \<or> (a = 50 \<and> in_range b (48, 52)) \<or> (a = 48 \<and> in_range b (49, 57)) \<or> (a = 48 \<and> b = 48)"
    unfolding octet_chars
    by (simp add: ascii_decimal [OF assms(2)] ascii_decimal [OF assms(3)])
  also have "\<dots> \<longleftrightarrow> 100 * (a - 48) + 10 * (b - 48) + (c - 48) \<le> 255"
    using assms unfolding ascii_digit_def in_range_def fst_conv snd_conv by arith
  finally show ?thesis by (simp add: decimal3)
qed

lemma octet_long: "\<not> fullmatch U octet (a # b # c # d # s)"
  unfolding octet_chars by simp

text \<open>
  Claim C9, as amended. A string of ASCII digits is matched in full by the octet
  sub-pattern if and only if it has one, two or three digits and its decimal value is at
  most 255, whatever the table of the other decimal digits: the encodings with leading
  zeros that fit in three digits are matched, longer ones are not.
\<close>

theorem octet_fullmatch_ascii:
  assumes "list_all ascii_digit s"
  shows "fullmatch U octet s \<longleftrightarrow> s \<noteq> [] \<and> length s \<le> 3 \<and> decimal s \<le> 255"
proof (cases s)
  case Nil
  then show ?thesis by (simp add: octet0)
next
  case (Cons a s1)
  note c1 = this
  show ?thesis
  proof (cases s1)
    case Nil
    with c1 assms show ?thesis by (simp add: octet1 decimal1) (auto simp: ascii_digit_def)
  next
    case (Cons b s2)
    note c2 = this
    show ?thesis
    proof (cases s2)
      case Nil
      with c2 c1 assms show ?thesis
        by (simp add: octet2 decimal2) (auto simp: ascii_digit_def)
    next
      case (Cons c s3)
      note c3 = this
      show ?thesis
      proof (cases s3)
        case Nil
        with c3 c2 c1 assms show ?thesis
          by (simp add: octet3)
      next
        case (Cons d s4)
        with c3 c2 c1 show ?thesis
          by (simp add: octet_long)
      qed
    qed
  qed
qed

text \<open>The theorem at work: \<^verbatim>\<open>099\<close> is matched in full and \<^verbatim>\<open>256\<close> is not.\<close>

theorem octet_fullmatch_ascii_witness:
  "list_all ascii_digit (ustr ''099'') \<and> fullmatch arabic_indic octet (ustr ''099'')
   \<and> list_all ascii_digit (ustr ''256'') \<and> \<not> fullmatch arabic_indic octet (ustr ''256'')"
proof -
  have a: "list_all ascii_digit (ustr ''099'')" and b: "list_all ascii_digit (ustr ''256'')"
    by (simp_all add: ustr_def cp_def ascii_digit_def)
  from octet_fullmatch_ascii [OF a, of arabic_indic] octet_fullmatch_ascii [OF b, of arabic_indic] a b
  show ?thesis by (simp add: ustr_def cp_def decimal_def)
qed

text \<open>
  Claim C9 as it was stated fails: \<^verbatim>\<open>0007\<close> is a digit string of value 7, an encoding of
  7 with leading zeros, and the octet does not match it in full.
\<close>

theorem octet_rejects_four_digits:
  "list_all ascii_digit (ustr ''0007'') \<and> decimal (ustr ''0007'') \<le> 255
   \<and> \<not> fullmatch arabic_indic octet (ustr ''0007'')"
  by (simp add: ustr_def cp_def ascii_digit_def decimal_def octet_long)

text \<open>
  Outside ASCII the octet follows the table of decimal digits: it matches in full every
  single digit of the table.
\<close>

lemma octet_other_digit: "128 \<le> c \<Longrightarrow> U c \<Longrightarrow> fullmatch U octet [c]"
  unfolding octet_chars by (simp add: decimal_digit_def)

section \<open>The exporter\<close>

lemma apply_writes_Nil [simp]: "apply_writes [] f = f"
  by (simp add: apply_writes_def)

lemma apply_writes_Cons [simp]: "apply_writes (w # ws) f = apply_writes ws (f(fst w \<mapsto> snd w))"
  by (simp add: apply_writes_def)












section \<open>The indexer\<close>









end
